theory Spec2Isabelle
  imports Complex_Main "HOL-Library.Word"
begin

section \<open>The chat client of App.tsx: values, state and effects\<close>

text \<open>
  The component \<open>App\<close> keeps three pieces of React state that matter here:
  \<open>messages\<close> (the transcript), \<open>input\<close> (the draft) and \<open>isLoading\<close>.
  Its handlers are modelled as functions on a record of that state. Every call of a
  state setter, of \<open>axios.post\<close> and of the console is also written, in call order,
  to a trace, so that the order of steps and the absence of a request can be stated.

  An \<open>async\<close> function is cut at its one suspension point, the \<open>await\<close> of
  \<open>axios.post\<close>: the part before it and the part after it are separate functions, and
  what the network answers is an argument of the second. Clock readings
  (\<open>Date.now()\<close>), the configured key (\<open>import.meta.env.VITE_GROQ_API_KEY\<close>) and the
  translation function \<open>t\<close> come from outside the file and are arguments too.

  A handler reads \<open>messages\<close>, \<open>input\<close> and \<open>isLoading\<close> from the render it was
  created in. The model lets it read them from the state at the moment the handler
  starts, that is, the component has re-rendered between two events. Effects on the
  DOM only (\<open>preventDefault\<close>, the height of the text area, scrolling) are left out.
\<close>

subsection \<open>JavaScript strings and \<open>trim\<close>\<close>

text \<open>A JavaScript string is a sequence of 16-bit code units.\<close>

type_synonym jsstring = "16 word list"

definition ascii :: "string \<Rightarrow> jsstring" where
  "ascii s = map (\<lambda>c. word_of_nat (of_char c)) s"

text \<open>
  \<open>String.prototype.trim\<close> removes, at both ends, the code points of WhiteSpace and
  LineTerminator: TAB, LF, VT, FF, CR, SP, NBSP, U+1680, U+2000 to U+200A, U+2028,
  U+2029, U+202F, U+205F, U+3000 and U+FEFF. All of them are single code units.
\<close>

definition is_space :: "16 word \<Rightarrow> bool" where
  "is_space c \<longleftrightarrow>
     c = 0x0009 \<or> c = 0x000A \<or> c = 0x000B \<or> c = 0x000C \<or> c = 0x000D \<or> c = 0x0020 \<or>
     c = 0x00A0 \<or> c = 0x1680 \<or> (0x2000 \<le> c \<and> c \<le> 0x200A) \<or> c = 0x2028 \<or>
     c = 0x2029 \<or> c = 0x202F \<or> c = 0x205F \<or> c = 0x3000 \<or> c = 0xFEFF"

definition trim :: "jsstring \<Rightarrow> jsstring" where
  "trim s = rev (dropWhile is_space (rev (dropWhile is_space s)))"

subsection \<open>JavaScript values\<close>

text \<open>
  What a response body, a returned reply or a message content can be at run time. The
  interface \<open>Message\<close> declares \<open>content: string\<close>, but the reply of the gateway is
  \<open>any\<close> and is stored unchecked, so the content of a message is a value. An object is
  the list of its own properties; a number is the value of the double.
\<close>

datatype jsval =
    JUndefined
  | JNull
  | JBool bool
  | JNum rat
  | JStr jsstring
  | JArr "jsval list"
  | JObj "(jsstring \<times> jsval) list"

datatype js_error =
    JsError jsval
      \<comment> \<open>\<open>new Error(x)\<close>, holding the argument \<open>x\<close>; it has no \<open>response\<close>\<close>
  | TypeError
      \<comment> \<open>reading a property of \<open>undefined\<close> or \<open>null\<close>; it has no \<open>response\<close>\<close>
  | AxiosError "jsval option"
      \<comment> \<open>a rejection by axios: \<open>Some data\<close> when a response with that body arrived
          (a status outside 2xx), \<open>None\<close> when none did (a network failure)\<close>

datatype axios_outcome =
    Fulfilled jsval   \<comment> \<open>a 2xx response, with its \<open>response.data\<close>\<close>
  | Rejected "jsval option"  \<comment> \<open>the promise rejects with \<open>AxiosError\<close>\<close>

definition nullish :: "jsval \<Rightarrow> bool" where
  "nullish v \<longleftrightarrow> v = JUndefined \<or> v = JNull"

text \<open>
  \<open>member v name\<close> is \<open>v.name\<close> for a \<open>v\<close> that is neither \<open>undefined\<close> nor \<open>null\<close>,
  for the names this file reads (\<open>choices\<close>, \<open>message\<close>, \<open>content\<close>, \<open>error\<close>): none of
  them is a property of a prototype, so only an object can have one.
\<close>

definition member :: "jsval \<Rightarrow> jsstring \<Rightarrow> jsval" where
  "member v name =
     (case v of
        JObj kvs \<Rightarrow> (case map_of kvs name of Some x \<Rightarrow> x | None \<Rightarrow> JUndefined)
      | _ \<Rightarrow> JUndefined)"

text \<open>\<open>member0 v\<close> is \<open>v[0]\<close>, again for a \<open>v\<close> that is neither \<open>undefined\<close> nor \<open>null\<close>.\<close>

definition member0 :: "jsval \<Rightarrow> jsval" where
  "member0 v =
     (case v of
        JArr xs \<Rightarrow> (case xs of [] \<Rightarrow> JUndefined | x # _ \<Rightarrow> x)
      | JStr s \<Rightarrow> (case s of [] \<Rightarrow> JUndefined | c # _ \<Rightarrow> JStr [c])
      | JObj kvs \<Rightarrow> (case map_of kvs (ascii ''0'') of Some x \<Rightarrow> x | None \<Rightarrow> JUndefined)
      | _ \<Rightarrow> JUndefined)"

text \<open>Plain access \<open>v.name\<close> and \<open>v[0]\<close> throw a TypeError on \<open>undefined\<close> and \<open>null\<close>.\<close>

definition get :: "jsval \<Rightarrow> jsstring \<Rightarrow> js_error + jsval" where
  "get v name = (if nullish v then Inl TypeError else Inr (member v name))"

definition get0 :: "jsval \<Rightarrow> js_error + jsval" where
  "get0 v = (if nullish v then Inl TypeError else Inr (member0 v))"

text \<open>Optional chaining \<open>v?.name\<close> gives \<open>undefined\<close> there instead.\<close>

definition get_opt :: "jsval \<Rightarrow> jsstring \<Rightarrow> jsval" where
  "get_opt v name = (if nullish v then JUndefined else member v name)"

definition truthy :: "jsval \<Rightarrow> bool" where
  "truthy v =
     (case v of
        JUndefined \<Rightarrow> False
      | JNull \<Rightarrow> False
      | JBool b \<Rightarrow> b
      | JNum q \<Rightarrow> q \<noteq> 0
      | JStr s \<Rightarrow> s \<noteq> []
      | _ \<Rightarrow> True)"

subsection \<open>Messages, requests and the state\<close>

datatype role = User | Assistant

text \<open>
  \<open>id\<close> is the decimal text of a clock reading; the model keeps the number. The field
  is named \<open>id'\<close>, \<open>id\<close> being the identity function of HOL.
\<close>

record message =
  id' :: nat
  content :: jsval
  role :: role

text \<open>The body and the headers of a call of \<open>axios.post\<close>.\<close>

record request =
  url :: jsstring
  model :: jsstring
  req_messages :: "(role \<times> jsval) list"
  temperature :: "rat option"
  max_tokens :: nat
  content_type :: jsstring
  authorization :: jsstring

datatype effect =
    SetMessages "message list"  \<comment> \<open>\<open>setMessages\<close>, with the transcript it produces\<close>
  | SetInput jsstring
  | SetIsLoading bool
  | AxiosPost request
  | ConsoleLog string     \<comment> \<open>\<open>console.log\<close>, with its first argument\<close>
  | ConsoleError string   \<comment> \<open>\<open>console.error\<close>, with its first argument\<close>

record world =
  messages :: "message list"
  input :: jsstring
  isLoading :: bool
  trace :: "effect list"

definition setMessages :: "(message list \<Rightarrow> message list) \<Rightarrow> world \<Rightarrow> world" where
  "setMessages f w =
     w\<lparr>messages := f (messages w), trace := trace w @ [SetMessages (f (messages w))]\<rparr>"

definition setInput :: "jsstring \<Rightarrow> world \<Rightarrow> world" where
  "setInput s w = w\<lparr>input := s, trace := trace w @ [SetInput s]\<rparr>"

definition setIsLoading :: "bool \<Rightarrow> world \<Rightarrow> world" where
  "setIsLoading b w = w\<lparr>isLoading := b, trace := trace w @ [SetIsLoading b]\<rparr>"

definition emit :: "effect \<Rightarrow> world \<Rightarrow> world" where
  "emit e w = w\<lparr>trace := trace w @ [e]\<rparr>"

text \<open>The state of a freshly mounted component (the arguments of \<open>useState\<close>).\<close>

definition initial :: world where
  "initial = \<lparr>messages = [], input = [], isLoading = False, trace = []\<rparr>"

subsection \<open>The "new chat" button\<close>

definition newChat :: "world \<Rightarrow> world" where
  "newChat w = setInput [] (setMessages (\<lambda>_. []) w)"

subsection \<open>The completion gateway, \<open>callGroqAPI\<close>\<close>

text \<open>\<open>!apiKey\<close>: the variable is not defined, or it is the empty string.\<close>

definition key_missing :: "jsstring option \<Rightarrow> bool" where
  "key_missing apiKey = (case apiKey of None \<Rightarrow> True | Some k \<Rightarrow> k = [])"

definition endpoint :: jsstring where
  "endpoint = ascii ''https://api.groq.com/v1/chat/completions''"

definition chat_request :: "jsstring \<Rightarrow> message list \<Rightarrow> request" where
  "chat_request apiKey userMessages =
     \<lparr>url = endpoint,
      model = ascii ''mixtral-8x7b-32768'',
      req_messages = map (\<lambda>msg. (role msg, content msg)) userMessages,
      temperature = Some (7 / 10),
      max_tokens = 2048,
      content_type = ascii ''application/json'',
      authorization = ascii ''Bearer '' @ apiKey\<rparr>"

text \<open>
  The body of the \<open>try\<close> up to the \<open>await\<close>: the check of the key, then the request.
  \<open>Inl\<close> is the error thrown by the check, \<open>Inr\<close> the request that was posted.
\<close>

definition callGroqAPI_try :: "jsstring option \<Rightarrow> message list \<Rightarrow> world \<Rightarrow> (js_error + request) \<times> world" where
  "callGroqAPI_try apiKey userMessages w =
     (if key_missing apiKey then
        (Inl (JsError (JStr (ascii ''API key is missing''))),
         emit (ConsoleError ''API key is missing. Please check your .env file.'') w)
      else
        (let k = (case apiKey of Some k \<Rightarrow> k | None \<Rightarrow> []);
             w1 = emit (ConsoleLog ''Using API key (first few chars):'') w;
             req = chat_request k userMessages
         in (Inr req, emit (AxiosPost req) w1)))"

text \<open>\<open>response.data.choices[0].message.content\<close>\<close>

definition response_content :: "jsval \<Rightarrow> js_error + jsval" where
  "response_content data =
     (case get data (ascii ''choices'') of
        Inl e \<Rightarrow> Inl e
      | Inr choices \<Rightarrow>
          (case get0 choices of
             Inl e \<Rightarrow> Inl e
           | Inr choice \<Rightarrow>
               (case get choice (ascii ''message'') of
                  Inl e \<Rightarrow> Inl e
                | Inr msg \<Rightarrow> get msg (ascii ''content''))))"

text \<open>\<open>error.response?.data?.error?.message\<close>\<close>

definition upstream_message :: "js_error \<Rightarrow> jsval" where
  "upstream_message error =
     (case error of
        AxiosError (Some data) \<Rightarrow> get_opt (get_opt data (ascii ''error'')) (ascii ''message'')
      | _ \<Rightarrow> JUndefined)"

definition fallback :: jsval where
  "fallback = JStr (ascii ''Failed to get response from Groq API'')"

text \<open>The \<open>catch\<close> block: it logs, and throws a new error in place of the one caught.\<close>

definition callGroqAPI_catch :: "js_error \<Rightarrow> world \<Rightarrow> js_error \<times> world" where
  "callGroqAPI_catch error w =
     (let m = upstream_message error
      in (JsError (if truthy m then m else fallback),
          emit (ConsoleError ''Error calling Groq API:'') w))"

text \<open>
  The call up to its suspension: \<open>Inl\<close> when it has already failed (the promise is
  rejected and nothing is awaited), \<open>Inr\<close> when the request is out.
\<close>

definition callGroqAPI_begin :: "jsstring option \<Rightarrow> message list \<Rightarrow> world \<Rightarrow> (js_error + request) \<times> world" where
  "callGroqAPI_begin apiKey userMessages w =
     (case callGroqAPI_try apiKey userMessages w of
        (Inl e, w1) \<Rightarrow> (case callGroqAPI_catch e w1 of (e', w2) \<Rightarrow> (Inl e', w2))
      | (Inr req, w1) \<Rightarrow> (Inr req, w1))"

text \<open>The call from the moment the request settles.\<close>

definition callGroqAPI_resume :: "axios_outcome \<Rightarrow> world \<Rightarrow> (js_error + jsval) \<times> world" where
  "callGroqAPI_resume outcome w =
     (case outcome of
        Rejected r \<Rightarrow> (case callGroqAPI_catch (AxiosError r) w of (e', w1) \<Rightarrow> (Inl e', w1))
      | Fulfilled data \<Rightarrow>
          (case response_content data of
             Inl e \<Rightarrow> (case callGroqAPI_catch e w of (e', w1) \<Rightarrow> (Inl e', w1))
           | Inr v \<Rightarrow> (Inr v, w)))"

text \<open>The whole call, \<open>post\<close> being what the network answers to a request.\<close>

definition callGroqAPI :: "jsstring option \<Rightarrow> (request \<Rightarrow> axios_outcome) \<Rightarrow> message list \<Rightarrow> world \<Rightarrow> (js_error + jsval) \<times> world" where
  "callGroqAPI apiKey post userMessages w =
     (case callGroqAPI_begin apiKey userMessages w of
        (Inl e, w1) \<Rightarrow> (Inl e, w1)
      | (Inr req, w1) \<Rightarrow> callGroqAPI_resume (post req) w1)"

subsection \<open>\<open>handleSubmit\<close>\<close>

text \<open>
  From the guard to the call of the gateway: \<open>None\<close> when the guard returns, else the
  \<open>conversationHistory\<close> the gateway is called with. The history is built from the
  \<open>messages\<close> the handler sees, not from the updated state.
\<close>

definition userMessage :: "nat \<Rightarrow> jsstring \<Rightarrow> message" where
  "userMessage now draft = \<lparr>id' = now, content = JStr (trim draft), role = User\<rparr>"

definition handleSubmit_begin :: "nat \<Rightarrow> world \<Rightarrow> message list option \<times> world" where
  "handleSubmit_begin now w =
     (if trim (input w) = [] \<or> isLoading w then (None, w)
      else
        (let w1 = setMessages (\<lambda>prev. prev @ [userMessage now (input w)]) w;
             w2 = setInput [] w1;
             w3 = setIsLoading True w2;
             conversationHistory = messages w @ [userMessage now (input w)]
         in (Some conversationHistory, w3)))"

text \<open>
  From the result of the gateway to the end: the reply or, in the \<open>catch\<close>, the
  translated error text is appended; \<open>finally\<close> resets the flag.
\<close>

definition aiMessage :: "nat \<Rightarrow> jsval \<Rightarrow> message" where
  "aiMessage now aiResponse = \<lparr>id' = now + 1, content = aiResponse, role = Assistant\<rparr>"

definition errorMessage :: "(jsstring \<Rightarrow> jsval) \<Rightarrow> nat \<Rightarrow> message" where
  "errorMessage t now =
     \<lparr>id' = now + 1, content = t (ascii ''error.apiError''), role = Assistant\<rparr>"

definition handleSubmit_end :: "(jsstring \<Rightarrow> jsval) \<Rightarrow> nat \<Rightarrow> js_error + jsval \<Rightarrow> world \<Rightarrow> world" where
  "handleSubmit_end t now result w =
     setIsLoading False
       (case result of
          Inr aiResponse \<Rightarrow> setMessages (\<lambda>prev. prev @ [aiMessage now aiResponse]) w
        | Inl error \<Rightarrow>
            setMessages (\<lambda>prev. prev @ [errorMessage t now])
              (emit (ConsoleError ''Error in chat completion:'') w))"

text \<open>
  A whole submission during which no other handler runs: \<open>now\<close> and \<open>now'\<close> are the
  clock readings before and after the call.
\<close>

definition handleSubmit :: "(jsstring \<Rightarrow> jsval) \<Rightarrow> jsstring option \<Rightarrow> (request \<Rightarrow> axios_outcome) \<Rightarrow> nat \<Rightarrow> nat \<Rightarrow> world \<Rightarrow> world" where
  "handleSubmit t apiKey post now now' w =
     (case handleSubmit_begin now w of
        (None, w1) \<Rightarrow> w1
      | (Some conversationHistory, w1) \<Rightarrow>
          (case callGroqAPI apiKey post conversationHistory w1 of
             (result, w2) \<Rightarrow> handleSubmit_end t now' result w2))"

text \<open>
  A submission during which other handlers run while the request is out: \<open>during\<close>
  is what they do to the state between the \<open>await\<close> and the settlement of the
  request. \<open>handleSubmit\<close> is the case where nothing happens in between.
\<close>

definition handleSubmit_during :: "(world \<Rightarrow> world) \<Rightarrow> (jsstring \<Rightarrow> jsval) \<Rightarrow> jsstring option \<Rightarrow> (request \<Rightarrow> axios_outcome) \<Rightarrow> nat \<Rightarrow> nat \<Rightarrow> world \<Rightarrow> world" where
  "handleSubmit_during during t apiKey post now now' w =
     (case handleSubmit_begin now w of
        (None, w1) \<Rightarrow> w1
      | (Some conversationHistory, w1) \<Rightarrow>
          (case callGroqAPI_begin apiKey conversationHistory w1 of
             (Inl e, w2) \<Rightarrow> handleSubmit_end t now' (Inl e) w2
           | (Inr req, w2) \<Rightarrow>
               (case callGroqAPI_resume (post req) (during w2) of
                  (result, w3) \<Rightarrow> handleSubmit_end t now' result w3)))"

subsection \<open>The effect run on mount, and \<open>testApiKey\<close>\<close>

definition test_request :: "jsstring \<Rightarrow> request" where
  "test_request apiKey =
     \<lparr>url = endpoint,
      model = ascii ''mixtral-8x7b-32768'',
      req_messages = [(User, JStr (ascii ''Hello''))],
      temperature = None,
      max_tokens = 10,
      content_type = ascii ''application/json'',
      authorization = ascii ''Bearer '' @ apiKey\<rparr>"

definition testApiKey_begin :: "jsstring \<Rightarrow> world \<Rightarrow> request \<times> world" where
  "testApiKey_begin apiKey w = (test_request apiKey, emit (AxiosPost (test_request apiKey)) w)"

definition testApiKey_resume :: "axios_outcome \<Rightarrow> world \<Rightarrow> world" where
  "testApiKey_resume outcome w =
     (case outcome of
        Fulfilled data \<Rightarrow> emit (ConsoleLog ''API connection successful!'') w
      | Rejected r \<Rightarrow> emit (ConsoleError ''API test failed:'') w)"

text \<open>The first \<open>useEffect\<close>: \<open>Some\<close> the request it has sent, if any.\<close>

definition onMount :: "jsstring option \<Rightarrow> world \<Rightarrow> request option \<times> world" where
  "onMount apiKey w =
     (if key_missing apiKey then
        (None, emit (ConsoleError ''API key is missing! Please check your .env file'') w)
      else
        (let k = (case apiKey of Some k \<Rightarrow> k | None \<Rightarrow> []);
             w1 = emit (ConsoleLog ''API key found (first few chars):'') w
         in (case testApiKey_begin k w1 of (req, w2) \<Rightarrow> (Some req, w2))))"

subsection \<open>The response shape the specification speaks of\<close>

text \<open>
  This predicate is not in the source. It follows the words of the specification: the
  response contains \<open>choices[0].message.content\<close>, that is, a \<open>choices\<close> array whose
  first element has a \<open>message\<close> with a \<open>content\<close> that is a string.
\<close>

definition spec_contains_content :: "jsval \<Rightarrow> bool" where
  "spec_contains_content data =
     (case data of
        JObj kvs \<Rightarrow>
          (case map_of kvs (ascii ''choices'') of
             Some (JArr (choice # rest)) \<Rightarrow>
               (case choice of
                  JObj ckvs \<Rightarrow>
                    (case map_of ckvs (ascii ''message'') of
                       Some (JObj mkvs) \<Rightarrow>
                         (case map_of mkvs (ascii ''content'') of
                            Some (JStr s) \<Rightarrow> True
                          | _ \<Rightarrow> False)
                     | _ \<Rightarrow> False)
                | _ \<Rightarrow> False)
           | _ \<Rightarrow> False)
      | _ \<Rightarrow> False)"

subsection \<open>Concrete states and responses for the examples\<close>

text \<open>A transcript of two turns with the draft \<open>" hi  "\<close>, nothing in flight.\<close>

definition example_draft :: world where
  "example_draft =
     \<lparr>messages = [\<lparr>id' = 1, content = JStr (ascii ''a''), role = User\<rparr>,
                  \<lparr>id' = 3, content = JStr (ascii ''b''), role = Assistant\<rparr>],
      input = ascii '' hi  '', isLoading = False, trace = []\<rparr>"

text \<open>A draft of a space, a tab and an ideographic space.\<close>

definition example_blank :: world where
  "example_blank =
     \<lparr>messages = [], input = [0x0020, 0x0009, 0x3000], isLoading = False, trace = []\<rparr>"

text \<open>The draft \<open>"x"\<close> while a call is in flight.\<close>

definition example_loading :: world where
  "example_loading = \<lparr>messages = [], input = ascii ''x'', isLoading = True, trace = []\<rparr>"

text \<open>\<open>{"choices": [{"message": {"content": "Hello!"}}]}\<close>\<close>

definition example_reply :: jsval where
  "example_reply =
     JObj [(ascii ''choices'',
            JArr [JObj [(ascii ''message'',
                         JObj [(ascii ''content'', JStr (ascii ''Hello!''))])]])]"

text \<open>\<open>{"choices": [{"message": {}}]}\<close>\<close>

definition example_no_content :: jsval where
  "example_no_content = JObj [(ascii ''choices'', JArr [JObj [(ascii ''message'', JObj [])]])]"

section \<open>Properties\<close>

subsection \<open>What the gateway does to the state\<close>

lemmas setter_defs = setMessages_def setInput_def setIsLoading_def emit_def

lemmas access_defs = get_def get0_def get_opt_def nullish_def member_def member0_def

lemma callGroqAPI_catch_plain:
  "e = TypeError \<or> e = JsError x \<or> e = AxiosError None \<Longrightarrow>
   callGroqAPI_catch e w = (JsError fallback, emit (ConsoleError ''Error calling Groq API:'') w)"
  by (auto simp add: callGroqAPI_catch_def upstream_message_def truthy_def)

lemma callGroqAPI_begin_no_key:
  "key_missing apiKey \<Longrightarrow>
   callGroqAPI_begin apiKey userMessages w =
     (Inl (JsError fallback),
      w\<lparr>trace := trace w @
         [ConsoleError ''API key is missing. Please check your .env file.'',
          ConsoleError ''Error calling Groq API:'']\<rparr>)"
  by (simp add: callGroqAPI_begin_def callGroqAPI_try_def callGroqAPI_catch_def
      upstream_message_def truthy_def setter_defs)

lemma callGroqAPI_begin_key:
  "k \<noteq> [] \<Longrightarrow>
   callGroqAPI_begin (Some k) userMessages w =
     (Inr (chat_request k userMessages),
      w\<lparr>trace := trace w @
         [ConsoleLog ''Using API key (first few chars):'',
          AxiosPost (chat_request k userMessages)]\<rparr>)"
  by (simp add: callGroqAPI_begin_def callGroqAPI_try_def key_missing_def setter_defs Let_def)

lemma callGroqAPI_begin_state:
  "messages (snd (callGroqAPI_begin apiKey h w)) = messages w \<and>
   input (snd (callGroqAPI_begin apiKey h w)) = input w \<and>
   isLoading (snd (callGroqAPI_begin apiKey h w)) = isLoading w \<and>
   (\<exists>es. trace (snd (callGroqAPI_begin apiKey h w)) = trace w @ es)"
  by (simp add: callGroqAPI_begin_def callGroqAPI_try_def callGroqAPI_catch_def
      setter_defs Let_def)

lemma callGroqAPI_resume_state:
  "messages (snd (callGroqAPI_resume outcome w)) = messages w \<and>
   input (snd (callGroqAPI_resume outcome w)) = input w \<and>
   isLoading (snd (callGroqAPI_resume outcome w)) = isLoading w"
  by (simp add: callGroqAPI_resume_def callGroqAPI_catch_def setter_defs Let_def
      split: axios_outcome.split sum.split)

lemma callGroqAPI_resume_trace:
  "\<exists>es. trace (snd (callGroqAPI_resume outcome w)) = trace w @ es"
  by (simp add: callGroqAPI_resume_def callGroqAPI_catch_def setter_defs Let_def
      split: axios_outcome.split sum.split)

lemma callGroqAPI_state:
  "messages (snd (callGroqAPI apiKey post h w)) = messages w \<and>
   input (snd (callGroqAPI apiKey post h w)) = input w \<and>
   isLoading (snd (callGroqAPI apiKey post h w)) = isLoading w"
proof (cases "callGroqAPI_begin apiKey h w")
  case (Pair r w1)
  with callGroqAPI_begin_state [of apiKey h w] callGroqAPI_resume_state
  show ?thesis
    by (cases r) (simp_all add: callGroqAPI_def)
qed

lemma callGroqAPI_trace:
  "\<exists>es. trace (snd (callGroqAPI apiKey post h w)) = trace w @ es"
proof (cases "callGroqAPI_begin apiKey h w")
  case (Pair r w1)
  from callGroqAPI_begin_state [of apiKey h w] Pair
  obtain es where es: "trace w1 = trace w @ es" by auto
  show ?thesis
  proof (cases r)
    case (Inl e)
    with Pair es show ?thesis by (simp add: callGroqAPI_def)
  next
    case (Inr req)
    from callGroqAPI_resume_trace [of "post req" w1]
    obtain es' where "trace (snd (callGroqAPI_resume (post req) w1)) = trace w1 @ es'"
      by auto
    with Pair Inr es show ?thesis by (simp add: callGroqAPI_def)
  qed
qed

subsection \<open>The two halves of \<open>handleSubmit\<close>\<close>

lemma handleSubmit_begin_guarded:
  "trim (input w) \<noteq> [] \<Longrightarrow> \<not> isLoading w \<Longrightarrow>
   handleSubmit_begin now w =
     (Some (messages w @ [userMessage now (input w)]),
      w\<lparr>messages := messages w @ [userMessage now (input w)],
        input := [], isLoading := True,
        trace := trace w @
          [SetMessages (messages w @ [userMessage now (input w)]),
           SetInput [], SetIsLoading True]\<rparr>)"
  by (simp add: handleSubmit_begin_def setter_defs Let_def)

lemma handleSubmit_end_messages:
  "messages (handleSubmit_end t now result w) =
     messages w @ [case result of Inr v \<Rightarrow> aiMessage now v | Inl e \<Rightarrow> errorMessage t now]"
  by (simp add: handleSubmit_end_def setter_defs split: sum.split)

lemma handleSubmit_end_isLoading:
  "isLoading (handleSubmit_end t now result w) = False"
  by (simp add: handleSubmit_end_def setter_defs split: sum.split)

subsection \<open>The outcomes of the gateway and of a whole submission\<close>

lemma example_reply_content: "response_content example_reply = Inr (JStr (ascii ''Hello!''))"
  by (simp add: response_content_def example_reply_def access_defs ascii_def)

lemma example_no_content_value: "response_content example_no_content = Inr JUndefined"
  by (simp add: response_content_def example_no_content_def access_defs ascii_def)

lemma callGroqAPI_rejected:
  "k \<noteq> [] \<Longrightarrow> post (chat_request k h) = Rejected r \<Longrightarrow>
   \<exists>e. callGroqAPI (Some k) post h w =
     (Inl e, w\<lparr>trace := trace w @
        [ConsoleLog ''Using API key (first few chars):'', AxiosPost (chat_request k h),
         ConsoleError ''Error calling Groq API:'']\<rparr>)"
  by (simp add: callGroqAPI_def callGroqAPI_begin_key callGroqAPI_resume_def
      callGroqAPI_catch_def setter_defs Let_def)

lemma callGroqAPI_malformed:
  "k \<noteq> [] \<Longrightarrow> post (chat_request k h) = Fulfilled d \<Longrightarrow> response_content d = Inl x \<Longrightarrow>
   \<exists>e. callGroqAPI (Some k) post h w =
     (Inl e, w\<lparr>trace := trace w @
        [ConsoleLog ''Using API key (first few chars):'', AxiosPost (chat_request k h),
         ConsoleError ''Error calling Groq API:'']\<rparr>)"
  by (simp add: callGroqAPI_def callGroqAPI_begin_key callGroqAPI_resume_def
      callGroqAPI_catch_def setter_defs Let_def)

lemma callGroqAPI_replied:
  "k \<noteq> [] \<Longrightarrow> post (chat_request k h) = Fulfilled d \<Longrightarrow> response_content d = Inr v \<Longrightarrow>
   callGroqAPI (Some k) post h w =
     (Inr v, w\<lparr>trace := trace w @
        [ConsoleLog ''Using API key (first few chars):'', AxiosPost (chat_request k h)]\<rparr>)"
  by (simp add: callGroqAPI_def callGroqAPI_begin_key callGroqAPI_resume_def)

lemma callGroqAPI_no_key:
  "key_missing apiKey \<Longrightarrow>
   callGroqAPI apiKey post h w =
     (Inl (JsError fallback),
      w\<lparr>trace := trace w @
         [ConsoleError ''API key is missing. Please check your .env file.'',
          ConsoleError ''Error calling Groq API:'']\<rparr>)"
  by (simp add: callGroqAPI_def callGroqAPI_begin_no_key)

lemma handleSubmit_run:
  "trim (input w) \<noteq> [] \<Longrightarrow> \<not> isLoading w \<Longrightarrow>
   messages (handleSubmit t apiKey post now now' w) =
     messages w @
       [userMessage now (input w),
        case fst (callGroqAPI apiKey post (messages w @ [userMessage now (input w)])
                    (snd (handleSubmit_begin now w))) of
          Inr v \<Rightarrow> aiMessage now' v | Inl e \<Rightarrow> errorMessage t now'] \<and>
   isLoading (handleSubmit t apiKey post now now' w) = False"
proof -
  assume g: "trim (input w) \<noteq> []" "\<not> isLoading w"
  let ?h = "messages w @ [userMessage now (input w)]"
  define w1 where "w1 = snd (handleSubmit_begin now w)"
  have b: "handleSubmit_begin now w = (Some ?h, w1)" and m1: "messages w1 = ?h"
    unfolding w1_def using g by (simp_all add: handleSubmit_begin_guarded)
  obtain result w2 where c: "callGroqAPI apiKey post ?h w1 = (result, w2)"
    by (cases "callGroqAPI apiKey post ?h w1")
  have m2: "messages w2 = ?h"
    using callGroqAPI_state [of apiKey post ?h w1] c m1 by simp
  have "handleSubmit t apiKey post now now' w = handleSubmit_end t now' result w2"
    using b c by (simp add: handleSubmit_def)
  then show ?thesis
    using m2 c by (simp add: handleSubmit_end_messages handleSubmit_end_isLoading w1_def)
qed


lemma callGroqAPI_fails_iff:
  "isl (fst (callGroqAPI apiKey post h w)) \<longleftrightarrow>
     key_missing apiKey \<or>
     (\<exists>k. apiKey = Some k \<and>
        (case post (chat_request k h) of
           Rejected r \<Rightarrow> True
         | Fulfilled d \<Rightarrow> isl (response_content d)))"
proof (cases "key_missing apiKey")
  case True
  then show ?thesis by (simp add: callGroqAPI_no_key)
next
  case False
  then obtain k where k: "apiKey = Some k" "k \<noteq> []"
    by (cases apiKey) (simp_all add: key_missing_def)
  then show ?thesis
    by (simp add: callGroqAPI_def callGroqAPI_begin_key callGroqAPI_resume_def key_missing_def
        callGroqAPI_catch_def Let_def split: axios_outcome.split sum.split)
qed

subsection \<open>Reading the reply out of a response\<close>

lemma response_content_eq:
  "response_content data =
     (if nullish data \<or> nullish (member data (ascii ''choices'')) \<or>
         nullish (member0 (member data (ascii ''choices''))) \<or>
         nullish (member (member0 (member data (ascii ''choices''))) (ascii ''message''))
      then Inl TypeError
      else Inr (member (member (member0 (member data (ascii ''choices''))) (ascii ''message''))
                  (ascii ''content'')))"
  by (simp add: response_content_def get_def get0_def)

lemma spec_contains_content_read:
  assumes a: "spec_contains_content data"
  shows "\<exists>s. response_content data = Inr (JStr s)"
proof -
  from a obtain kvs where d: "data = JObj kvs"
    by (cases data) (simp_all add: spec_contains_content_def)
  from a d obtain ch where ch: "map_of kvs (ascii ''choices'') = Some ch"
    by (cases "map_of kvs (ascii ''choices'')") (simp_all add: spec_contains_content_def)
  from a d ch obtain cs where cs: "ch = JArr cs"
    by (cases ch) (simp_all add: spec_contains_content_def)
  from a d ch cs obtain choice rest where c: "cs = choice # rest"
    by (cases cs) (simp_all add: spec_contains_content_def)
  from a d ch cs c obtain ckvs where ck: "choice = JObj ckvs"
    by (cases choice) (simp_all add: spec_contains_content_def)
  from a d ch cs c ck obtain m where m: "map_of ckvs (ascii ''message'') = Some m"
    by (cases "map_of ckvs (ascii ''message'')") (simp_all add: spec_contains_content_def)
  from a d ch cs c ck m obtain mkvs where mk: "m = JObj mkvs"
    by (cases m) (simp_all add: spec_contains_content_def)
  from a d ch cs c ck m mk obtain x where x: "map_of mkvs (ascii ''content'') = Some x"
    by (cases "map_of mkvs (ascii ''content'')") (simp_all add: spec_contains_content_def)
  from a d ch cs c ck m mk x obtain s where s: "x = JStr s"
    by (cases x) (simp_all add: spec_contains_content_def)
  from d ch cs c ck m mk x s have "response_content data = Inr (JStr s)"
    by (simp add: response_content_def access_defs)
  then show ?thesis ..
qed

subsection \<open>A submission with nothing in between\<close>

lemma handleSubmit_during_id:
  "handleSubmit_during (\<lambda>w. w) t apiKey post now now' w = handleSubmit t apiKey post now now' w"
  by (simp add: handleSubmit_during_def handleSubmit_def callGroqAPI_def
      split: prod.split option.split sum.split)

subsection \<open>The requests a call posts\<close>

lemma callGroqAPI_resume_no_post:
  "\<exists>es. trace (snd (callGroqAPI_resume outcome w)) = trace w @ es \<and>
        (\<forall>req. AxiosPost req \<notin> set es)"
  by (cases outcome)
     (auto simp add: callGroqAPI_resume_def callGroqAPI_catch_def setter_defs Let_def
        split: sum.split)

lemma handleSubmit_end_no_post:
  "\<exists>es. trace (handleSubmit_end t now result w) = trace w @ es \<and>
        (\<forall>req. AxiosPost req \<notin> set es)"
  by (cases result) (auto simp add: handleSubmit_end_def setter_defs)

lemma callGroqAPI_posts_once:
  assumes "k \<noteq> []"
  shows "\<exists>es. trace (snd (callGroqAPI (Some k) post h w)) =
           trace w @ [ConsoleLog ''Using API key (first few chars):'',
                      AxiosPost (chat_request k h)] @ es \<and>
        (\<forall>req. AxiosPost req \<notin> set es)"
proof -
  let ?w1 = "w\<lparr>trace := trace w @
         [ConsoleLog ''Using API key (first few chars):'', AxiosPost (chat_request k h)]\<rparr>"
  have c: "callGroqAPI (Some k) post h w = callGroqAPI_resume (post (chat_request k h)) ?w1"
    using assms by (simp add: callGroqAPI_def callGroqAPI_begin_key)
  from callGroqAPI_resume_no_post [of "post (chat_request k h)" ?w1]
  obtain es where "trace (snd (callGroqAPI_resume (post (chat_request k h)) ?w1)) = trace ?w1 @ es"
    and "\<forall>req. AxiosPost req \<notin> set es" by blast
  with c show ?thesis by simp
qed

subsection \<open>The claims\<close>

text \<open>
  C7. The "new chat" action leaves an empty transcript and an empty draft, whatever the
  transcript and the draft were before; it does nothing else (only the two setters are
  called, and the loading flag keeps its value).
\<close>

theorem newChat_resets:
  "messages (newChat w) = [] \<and> input (newChat w) = [] \<and>
   isLoading (newChat w) = isLoading w \<and>
   trace (newChat w) = trace w @ [SetMessages [], SetInput []]"
  by (simp add: newChat_def setInput_def setMessages_def)

text \<open>Evaluation of the examples.\<close>

lemma ascii_Nil: "ascii s = [] \<longleftrightarrow> s = []"
  by (simp add: ascii_def)

lemma trim_example: "trim (ascii '' hi  '') = ascii ''hi''"
  by (simp add: trim_def ascii_def is_space_def)

lemma example_draft_guard:
  "trim (input example_draft) \<noteq> [] \<and> \<not> isLoading example_draft"
  by (simp add: example_draft_def trim_example ascii_Nil)

lemma example_draft_userMessage:
  "userMessage now (input example_draft) =
     \<lparr>id' = now, content = JStr (ascii ''hi''), role = User\<rparr>"
  by (simp add: userMessage_def example_draft_def trim_example)

text \<open>
  C1. When the draft is not empty after trimming and the loading flag is false,
  \<open>handleSubmit\<close> calls, in this order, \<open>setMessages\<close> appending a user turn whose
  content is the trimmed draft, \<open>setInput\<close> with the empty string and \<open>setIsLoading\<close>
  with true. The gateway is then called in the state these three calls leave, with
  the transcript ending in the new turn, and every effect of the gateway comes after
  them in the trace.
\<close>

theorem handleSubmit_enters_submitting:
  assumes "trim (input w) \<noteq> []" and "\<not> isLoading w"
  shows "fst (handleSubmit_begin now w) = Some (messages w @ [userMessage now (input w)]) \<and>
     content (userMessage now (input w)) = JStr (trim (input w)) \<and>
     role (userMessage now (input w)) = User \<and>
     messages (snd (handleSubmit_begin now w)) = messages w @ [userMessage now (input w)] \<and>
     input (snd (handleSubmit_begin now w)) = [] \<and>
     isLoading (snd (handleSubmit_begin now w)) = True \<and>
     trace (snd (handleSubmit_begin now w)) = trace w @
       [SetMessages (messages w @ [userMessage now (input w)]), SetInput [], SetIsLoading True] \<and>
     handleSubmit t apiKey post now now' w =
       (case callGroqAPI apiKey post (messages w @ [userMessage now (input w)])
               (snd (handleSubmit_begin now w)) of
          (result, w2) \<Rightarrow> handleSubmit_end t now' result w2) \<and>
     (\<exists>es. trace (snd (callGroqAPI apiKey post (messages w @ [userMessage now (input w)])
                         (snd (handleSubmit_begin now w)))) =
            trace (snd (handleSubmit_begin now w)) @ es)"
proof -
  let ?h = "messages w @ [userMessage now (input w)]"
  define w1 where "w1 = snd (handleSubmit_begin now w)"
  have b: "handleSubmit_begin now w = (Some ?h, w1)"
    unfolding w1_def using assms by (simp add: handleSubmit_begin_guarded)
  have st: "messages w1 = ?h \<and> input w1 = [] \<and> isLoading w1 = True \<and>
      trace w1 = trace w @ [SetMessages ?h, SetInput [], SetIsLoading True]"
    unfolding w1_def using assms by (simp add: handleSubmit_begin_guarded)
  have run: "handleSubmit t apiKey post now now' w =
      (case callGroqAPI apiKey post ?h w1 of (result, w2) \<Rightarrow> handleSubmit_end t now' result w2)"
    using b by (simp add: handleSubmit_def)
  from b st run callGroqAPI_trace [of apiKey post ?h w1] show ?thesis
    by (simp add: userMessage_def)
qed

theorem handleSubmit_enters_submitting_witness:
  "trim (input example_draft) \<noteq> [] \<and> \<not> isLoading example_draft \<and>
   fst (handleSubmit_begin 5 example_draft) =
     Some (messages example_draft @ [\<lparr>id' = 5, content = JStr (ascii ''hi''), role = User\<rparr>]) \<and>
   input (snd (handleSubmit_begin 5 example_draft)) = [] \<and>
   isLoading (snd (handleSubmit_begin 5 example_draft)) = True"
  using example_draft_guard
    handleSubmit_enters_submitting [of example_draft 5 "\<lambda>_. JNull" None "\<lambda>_. Rejected None" 6]
  by (simp add: example_draft_userMessage)

text \<open>
  C2. For a submission that passes the guard, the history \<open>handleSubmit\<close> gives to
  the gateway is the transcript as it stands after the user turn was appended: the
  turns that were there, in their order, then the new one. With a key configured the
  whole submission posts exactly one request, and its \<open>messages\<close> are the \<open>role\<close> and
  \<open>content\<close> of these turns, one pair for each turn and in the same order; there is
  no other role than \<open>user\<close> and \<open>assistant\<close> to insert.
\<close>

theorem gateway_receives_whole_transcript:
  assumes "trim (input w) \<noteq> []" and "\<not> isLoading w" and "k \<noteq> []"
  shows "fst (handleSubmit_begin now w) = Some (messages (snd (handleSubmit_begin now w))) \<and>
     messages (snd (handleSubmit_begin now w)) = messages w @ [userMessage now (input w)] \<and>
     (\<forall>h w1. handleSubmit_begin now w = (Some h, w1) \<longrightarrow>
        callGroqAPI_begin (Some k) h w1 =
          (Inr (chat_request k h),
           w1\<lparr>trace := trace w1 @
             [ConsoleLog ''Using API key (first few chars):'', AxiosPost (chat_request k h)]\<rparr>) \<and>
        req_messages (chat_request k h) = map (\<lambda>m. (role m, content m)) (messages w1)) \<and>
     handleSubmit t (Some k) post now now' w =
       (case callGroqAPI (Some k) post (messages (snd (handleSubmit_begin now w)))
               (snd (handleSubmit_begin now w)) of
          (result, w2) \<Rightarrow> handleSubmit_end t now' result w2) \<and>
     req_messages (chat_request k (messages w @ [userMessage now (input w)])) =
       map (\<lambda>m. (role m, content m)) (messages w) @
         [(User, JStr (trim (input w)))] \<and>
     (\<exists>es. trace (handleSubmit t (Some k) post now now' w) =
            trace w @
              [SetMessages (messages w @ [userMessage now (input w)]), SetInput [],
               SetIsLoading True, ConsoleLog ''Using API key (first few chars):'',
               AxiosPost (chat_request k (messages w @ [userMessage now (input w)]))] @ es \<and>
            (\<forall>req. AxiosPost req \<notin> set es))"
proof -
  let ?h = "messages w @ [userMessage now (input w)]"
  define w1 where "w1 = snd (handleSubmit_begin now w)"
  have b: "handleSubmit_begin now w = (Some ?h, w1)"
    unfolding w1_def using assms by (simp add: handleSubmit_begin_guarded)
  have st: "messages w1 = ?h"
    "trace w1 = trace w @ [SetMessages ?h, SetInput [], SetIsLoading True]"
    unfolding w1_def using assms by (simp_all add: handleSubmit_begin_guarded)
  obtain result w2 where c: "callGroqAPI (Some k) post ?h w1 = (result, w2)"
    by (cases "callGroqAPI (Some k) post ?h w1")
  have run: "handleSubmit t (Some k) post now now' w = handleSubmit_end t now' result w2"
    using b c by (simp add: handleSubmit_def)
  from callGroqAPI_posts_once [OF assms(3), of post ?h w1] c
  obtain es1 where e1: "trace w2 = trace w1 @
      [ConsoleLog ''Using API key (first few chars):'', AxiosPost (chat_request k ?h)] @ es1"
    and n1: "\<forall>req. AxiosPost req \<notin> set es1" by auto
  from handleSubmit_end_no_post [of t now' result w2]
  obtain es2 where e2: "trace (handleSubmit_end t now' result w2) = trace w2 @ es2"
    and n2: "\<forall>req. AxiosPost req \<notin> set es2" by blast
  have tr: "\<exists>es. trace (handleSubmit t (Some k) post now now' w) =
            trace w @
              [SetMessages ?h, SetInput [], SetIsLoading True,
               ConsoleLog ''Using API key (first few chars):'',
               AxiosPost (chat_request k ?h)] @ es \<and>
            (\<forall>req. AxiosPost req \<notin> set es)"
  proof (intro exI conjI)
    show "trace (handleSubmit t (Some k) post now now' w) =
            trace w @
              [SetMessages ?h, SetInput [], SetIsLoading True,
               ConsoleLog ''Using API key (first few chars):'',
               AxiosPost (chat_request k ?h)] @ (es1 @ es2)"
      using run e1 e2 st by simp
    show "\<forall>req. AxiosPost req \<notin> set (es1 @ es2)"
      using n1 n2 by simp
  qed
  have first: "fst (handleSubmit_begin now w) = Some (messages (snd (handleSubmit_begin now w))) \<and>
     messages (snd (handleSubmit_begin now w)) = ?h \<and>
     (\<forall>h w1. handleSubmit_begin now w = (Some h, w1) \<longrightarrow>
        callGroqAPI_begin (Some k) h w1 =
          (Inr (chat_request k h),
           w1\<lparr>trace := trace w1 @
             [ConsoleLog ''Using API key (first few chars):'', AxiosPost (chat_request k h)]\<rparr>) \<and>
        req_messages (chat_request k h) = map (\<lambda>m. (role m, content m)) (messages w1))"
    using assms
    by (simp add: handleSubmit_begin_guarded callGroqAPI_begin_key chat_request_def)
  have whole: "handleSubmit t (Some k) post now now' w =
       (case callGroqAPI (Some k) post (messages (snd (handleSubmit_begin now w)))
               (snd (handleSubmit_begin now w)) of
          (result, w2) \<Rightarrow> handleSubmit_end t now' result w2)"
    using b st(1) by (simp add: handleSubmit_def flip: w1_def)
  have body: "req_messages (chat_request k ?h) =
       map (\<lambda>m. (role m, content m)) (messages w) @ [(User, JStr (trim (input w)))]"
    by (simp add: chat_request_def userMessage_def)
  from first whole body tr show ?thesis by blast
qed

theorem gateway_receives_whole_transcript_witness:
  "trim (input example_draft) \<noteq> [] \<and> \<not> isLoading example_draft \<and> ascii ''key'' \<noteq> [] \<and>
   fst (handleSubmit_begin 5 example_draft) =
     Some [\<lparr>id' = 1, content = JStr (ascii ''a''), role = User\<rparr>,
           \<lparr>id' = 3, content = JStr (ascii ''b''), role = Assistant\<rparr>,
           \<lparr>id' = 5, content = JStr (ascii ''hi''), role = User\<rparr>] \<and>
   messages (snd (handleSubmit_begin 5 example_draft)) =
     [\<lparr>id' = 1, content = JStr (ascii ''a''), role = User\<rparr>,
      \<lparr>id' = 3, content = JStr (ascii ''b''), role = Assistant\<rparr>,
      \<lparr>id' = 5, content = JStr (ascii ''hi''), role = User\<rparr>] \<and>
   req_messages (chat_request (ascii ''key'') (messages (snd (handleSubmit_begin 5 example_draft)))) =
     [(User, JStr (ascii ''a'')), (Assistant, JStr (ascii ''b'')), (User, JStr (ascii ''hi''))] \<and>
   AxiosPost (chat_request (ascii ''key'')
       [\<lparr>id' = 1, content = JStr (ascii ''a''), role = User\<rparr>,
        \<lparr>id' = 3, content = JStr (ascii ''b''), role = Assistant\<rparr>,
        \<lparr>id' = 5, content = JStr (ascii ''hi''), role = User\<rparr>])
     \<in> set (trace (handleSubmit (\<lambda>_. JStr (ascii ''failed'')) (Some (ascii ''key''))
                      (\<lambda>_. Fulfilled example_reply) 5 6 example_draft))"
proof -
  have k: "ascii ''key'' \<noteq> []" by (simp add: ascii_Nil)
  have m: "messages example_draft =
     [\<lparr>id' = 1, content = JStr (ascii ''a''), role = User\<rparr>,
      \<lparr>id' = 3, content = JStr (ascii ''b''), role = Assistant\<rparr>]"
    by (simp add: example_draft_def)
  note inst = gateway_receives_whole_transcript [of example_draft "ascii ''key''" 5
      "\<lambda>_. JStr (ascii ''failed'')" "\<lambda>_. Fulfilled example_reply" 6]
  from example_draft_guard k inst
  obtain es where "trace (handleSubmit (\<lambda>_. JStr (ascii ''failed'')) (Some (ascii ''key''))
                      (\<lambda>_. Fulfilled example_reply) 5 6 example_draft) =
            trace example_draft @
              [SetMessages (messages example_draft @ [userMessage 5 (input example_draft)]),
               SetInput [], SetIsLoading True, ConsoleLog ''Using API key (first few chars):'',
               AxiosPost (chat_request (ascii ''key'')
                 (messages example_draft @ [userMessage 5 (input example_draft)]))] @ es"
    by blast
  then have p: "AxiosPost (chat_request (ascii ''key'')
       [\<lparr>id' = 1, content = JStr (ascii ''a''), role = User\<rparr>,
        \<lparr>id' = 3, content = JStr (ascii ''b''), role = Assistant\<rparr>,
        \<lparr>id' = 5, content = JStr (ascii ''hi''), role = User\<rparr>])
     \<in> set (trace (handleSubmit (\<lambda>_. JStr (ascii ''failed'')) (Some (ascii ''key''))
                      (\<lambda>_. Fulfilled example_reply) 5 6 example_draft))"
    by (simp add: example_draft_userMessage m)
  from example_draft_guard k inst p
  show ?thesis
    by (simp add: example_draft_userMessage m chat_request_def)
qed

text \<open>
  C4. When the draft is empty after trimming, or the loading flag is true,
  \<open>handleSubmit\<close> returns at its guard: the gateway is not called and the state is
  the one before, trace included, so neither a setter nor \<open>axios.post\<close> nor the
  console was called.
\<close>

theorem handleSubmit_guard_inert:
  assumes "trim (input w) = [] \<or> isLoading w"
  shows "handleSubmit_begin now w = (None, w) \<and> handleSubmit t apiKey post now now' w = w"
  using assms by (simp add: handleSubmit_def handleSubmit_begin_def)

theorem handleSubmit_guard_inert_witness:
  "trim (input example_blank) = [] \<and>
   handleSubmit (\<lambda>_. JNull) (Some (ascii ''key'')) (\<lambda>_. Fulfilled example_reply) 5 6 example_blank
     = example_blank \<and>
   isLoading example_loading \<and>
   handleSubmit (\<lambda>_. JNull) (Some (ascii ''key'')) (\<lambda>_. Fulfilled example_reply) 5 6 example_loading
     = example_loading"
proof -
  have b: "trim (input example_blank) = []"
    by (simp add: example_blank_def trim_def is_space_def)
  have l: "isLoading example_loading"
    by (simp add: example_loading_def)
  from b l
    handleSubmit_guard_inert [of example_blank 5 "\<lambda>_. JNull" "Some (ascii ''key'')"
      "\<lambda>_. Fulfilled example_reply" 6]
    handleSubmit_guard_inert [of example_loading 5 "\<lambda>_. JNull" "Some (ascii ''key'')"
      "\<lambda>_. Fulfilled example_reply" 6]
  show ?thesis by simp
qed

text \<open>
  C3, as stated, does not hold for every malformed response. The response
  \<open>{"choices": [{"message": {}}]}\<close> does not contain \<open>choices[0].message.content\<close>,
  but the gateway does not fail on it, and the assistant turn that is appended has
  the content \<open>undefined\<close>, not the translated error text.
\<close>

theorem handleSubmit_undetected_counterexample:
  "trim (input example_draft) \<noteq> [] \<and> \<not> isLoading example_draft \<and>
   \<not> spec_contains_content example_no_content \<and>
   messages (handleSubmit (\<lambda>_. JStr (ascii ''failed'')) (Some (ascii ''key''))
               (\<lambda>_. Fulfilled example_no_content) 5 6 example_draft) =
     [\<lparr>id' = 1, content = JStr (ascii ''a''), role = User\<rparr>,
      \<lparr>id' = 3, content = JStr (ascii ''b''), role = Assistant\<rparr>,
      \<lparr>id' = 5, content = JStr (ascii ''hi''), role = User\<rparr>,
      \<lparr>id' = 7, content = JUndefined, role = Assistant\<rparr>] \<and>
   JUndefined \<noteq> JStr (ascii ''failed'')"
proof -
  have k: "ascii ''key'' \<noteq> []" by (simp add: ascii_Nil)
  have n: "\<not> spec_contains_content example_no_content"
    by (simp add: spec_contains_content_def example_no_content_def ascii_def)
  have m: "messages example_draft =
     [\<lparr>id' = 1, content = JStr (ascii ''a''), role = User\<rparr>,
      \<lparr>id' = 3, content = JStr (ascii ''b''), role = Assistant\<rparr>]"
    by (simp add: example_draft_def)
  have c: "fst (callGroqAPI (Some (ascii ''key'')) (\<lambda>_. Fulfilled example_no_content)
                 (messages example_draft @ [userMessage 5 (input example_draft)])
                 (snd (handleSubmit_begin 5 example_draft))) = Inr JUndefined"
    using k by (simp add: callGroqAPI_replied example_no_content_value)
  from example_draft_guard n c
    handleSubmit_run [of example_draft "\<lambda>_. JStr (ascii ''failed'')" "Some (ascii ''key'')"
      "\<lambda>_. Fulfilled example_no_content" 5 6]
  show ?thesis
    by (simp add: example_draft_userMessage m aiMessage_def)
qed

text \<open>
  C3, amended. Whenever the gateway fails during a submission, exactly one assistant
  turn is appended after the user turn and its content is \<open>t('error.apiError')\<close>,
  which does not depend on the error; the loading flag is false afterwards. The
  gateway fails when the key is missing, when the request is rejected, with or
  without a response, and when the body of a 2xx response, its \<open>choices\<close>, the first
  choice or its \<open>message\<close> is \<open>undefined\<close> or \<open>null\<close>. The flag is reset in
  \<open>finally\<close>, so it is false after the second half of \<open>handleSubmit\<close> for every
  result of the gateway, reply or error.
\<close>

theorem handleSubmit_failure:
  assumes "trim (input w) \<noteq> []" and "\<not> isLoading w"
    and "key_missing apiKey \<or>
         (\<exists>k. apiKey = Some k \<and>
            (case post (chat_request k (messages w @ [userMessage now (input w)])) of
               Rejected r \<Rightarrow> True
             | Fulfilled data \<Rightarrow>
                 nullish data \<or> nullish (member data (ascii ''choices'')) \<or>
                 nullish (member0 (member data (ascii ''choices''))) \<or>
                 nullish (member (member0 (member data (ascii ''choices''))) (ascii ''message''))))"
  shows "messages (handleSubmit t apiKey post now now' w) =
           messages w @ [userMessage now (input w), errorMessage t now'] \<and>
         content (errorMessage t now') = t (ascii ''error.apiError'') \<and>
         role (errorMessage t now') = Assistant \<and>
         isLoading (handleSubmit t apiKey post now now' w) = False \<and>
         isLoading (handleSubmit_end t now' result w') = False"
proof -
  let ?h = "messages w @ [userMessage now (input w)]"
  have "key_missing apiKey \<or>
     (\<exists>k. apiKey = Some k \<and>
        (case post (chat_request k ?h) of
           Rejected r \<Rightarrow> True
         | Fulfilled d \<Rightarrow> isl (response_content d)))"
    using assms(3) by (auto simp add: response_content_eq split: axios_outcome.splits)
  then have "isl (fst (callGroqAPI apiKey post ?h (snd (handleSubmit_begin now w))))"
    by (simp only: callGroqAPI_fails_iff)
  then obtain e where
    "fst (callGroqAPI apiKey post ?h (snd (handleSubmit_begin now w))) = Inl e"
    by (auto simp add: isl_def)
  with assms(1,2) handleSubmit_run [of w t apiKey post now now'] show ?thesis
    by (simp add: errorMessage_def handleSubmit_end_isLoading)
qed

theorem handleSubmit_failure_witness:
  "trim (input example_draft) \<noteq> [] \<and> \<not> isLoading example_draft \<and>
   key_missing None \<and> nullish (member (JObj []) (ascii ''choices'')) \<and>
   messages (handleSubmit (\<lambda>_. JStr (ascii ''failed'')) None (\<lambda>_. Rejected None) 5 6 example_draft) =
     [\<lparr>id' = 1, content = JStr (ascii ''a''), role = User\<rparr>,
      \<lparr>id' = 3, content = JStr (ascii ''b''), role = Assistant\<rparr>,
      \<lparr>id' = 5, content = JStr (ascii ''hi''), role = User\<rparr>,
      \<lparr>id' = 7, content = JStr (ascii ''failed''), role = Assistant\<rparr>] \<and>
   isLoading (handleSubmit (\<lambda>_. JStr (ascii ''failed'')) None (\<lambda>_. Rejected None) 5 6 example_draft)
     = False \<and>
   messages (handleSubmit (\<lambda>_. JStr (ascii ''failed'')) (Some (ascii ''key''))
               (\<lambda>_. Rejected None) 5 6 example_draft) =
     [\<lparr>id' = 1, content = JStr (ascii ''a''), role = User\<rparr>,
      \<lparr>id' = 3, content = JStr (ascii ''b''), role = Assistant\<rparr>,
      \<lparr>id' = 5, content = JStr (ascii ''hi''), role = User\<rparr>,
      \<lparr>id' = 7, content = JStr (ascii ''failed''), role = Assistant\<rparr>] \<and>
   messages (handleSubmit (\<lambda>_. JStr (ascii ''failed'')) (Some (ascii ''key''))
               (\<lambda>_. Rejected (Some (JObj []))) 5 6 example_draft) =
     [\<lparr>id' = 1, content = JStr (ascii ''a''), role = User\<rparr>,
      \<lparr>id' = 3, content = JStr (ascii ''b''), role = Assistant\<rparr>,
      \<lparr>id' = 5, content = JStr (ascii ''hi''), role = User\<rparr>,
      \<lparr>id' = 7, content = JStr (ascii ''failed''), role = Assistant\<rparr>] \<and>
   messages (handleSubmit (\<lambda>_. JStr (ascii ''failed'')) (Some (ascii ''key''))
               (\<lambda>_. Fulfilled (JObj [])) 5 6 example_draft) =
     [\<lparr>id' = 1, content = JStr (ascii ''a''), role = User\<rparr>,
      \<lparr>id' = 3, content = JStr (ascii ''b''), role = Assistant\<rparr>,
      \<lparr>id' = 5, content = JStr (ascii ''hi''), role = User\<rparr>,
      \<lparr>id' = 7, content = JStr (ascii ''failed''), role = Assistant\<rparr>]"
proof -
  have n: "key_missing None" by (simp add: key_missing_def)
  have u: "nullish (member (JObj []) (ascii ''choices''))" by (simp add: access_defs)
  have m: "messages example_draft =
     [\<lparr>id' = 1, content = JStr (ascii ''a''), role = User\<rparr>,
      \<lparr>id' = 3, content = JStr (ascii ''b''), role = Assistant\<rparr>]"
    by (simp add: example_draft_def)
  from example_draft_guard n u
    handleSubmit_failure [of example_draft None "\<lambda>_. Rejected None" 5
      "\<lambda>_. JStr (ascii ''failed'')" 6]
    handleSubmit_failure [of example_draft "Some (ascii ''key'')" "\<lambda>_. Rejected None" 5
      "\<lambda>_. JStr (ascii ''failed'')" 6]
    handleSubmit_failure [of example_draft "Some (ascii ''key'')" "\<lambda>_. Rejected (Some (JObj []))" 5
      "\<lambda>_. JStr (ascii ''failed'')" 6]
    handleSubmit_failure [of example_draft "Some (ascii ''key'')" "\<lambda>_. Fulfilled (JObj [])" 5
      "\<lambda>_. JStr (ascii ''failed'')" 6]
  show ?thesis
    by (simp add: example_draft_userMessage m errorMessage_def)
qed

text \<open>
  C5. When the request is answered with a 2xx response from which
  \<open>choices[0].message.content\<close> can be read, exactly one assistant turn is appended
  after the user turn and its content is the value read, unchanged: for the response
  \<open>{"choices": [{"message": {"content": "Hello!"}}]}\<close> it is \<open>"Hello!"\<close>.
\<close>

theorem handleSubmit_success:
  assumes "trim (input w) \<noteq> []" and "\<not> isLoading w" and "k \<noteq> []"
    and "post (chat_request k (messages w @ [userMessage now (input w)])) = Fulfilled data"
    and "response_content data = Inr v"
  shows "messages (handleSubmit t (Some k) post now now' w) =
           messages w @ [userMessage now (input w), aiMessage now' v] \<and>
         content (aiMessage now' v) = v \<and>
         role (aiMessage now' v) = Assistant \<and>
         isLoading (handleSubmit t (Some k) post now now' w) = False"
  using assms handleSubmit_run [of w t "Some k" post now now']
  by (simp add: callGroqAPI_replied aiMessage_def)

theorem handleSubmit_success_witness:
  "trim (input example_draft) \<noteq> [] \<and> \<not> isLoading example_draft \<and> ascii ''key'' \<noteq> [] \<and>
   response_content example_reply = Inr (JStr (ascii ''Hello!'')) \<and>
   messages (handleSubmit (\<lambda>_. JStr (ascii ''failed'')) (Some (ascii ''key''))
               (\<lambda>_. Fulfilled example_reply) 5 6 example_draft) =
     [\<lparr>id' = 1, content = JStr (ascii ''a''), role = User\<rparr>,
      \<lparr>id' = 3, content = JStr (ascii ''b''), role = Assistant\<rparr>,
      \<lparr>id' = 5, content = JStr (ascii ''hi''), role = User\<rparr>,
      \<lparr>id' = 7, content = JStr (ascii ''Hello!''), role = Assistant\<rparr>]"
proof -
  have k: "ascii ''key'' \<noteq> []" by (simp add: ascii_Nil)
  have m: "messages example_draft =
     [\<lparr>id' = 1, content = JStr (ascii ''a''), role = User\<rparr>,
      \<lparr>id' = 3, content = JStr (ascii ''b''), role = Assistant\<rparr>]"
    by (simp add: example_draft_def)
  from example_draft_guard k example_reply_content
    handleSubmit_success [of example_draft "ascii ''key''" "\<lambda>_. Fulfilled example_reply" 5
      example_reply "JStr (ascii ''Hello!'')" "\<lambda>_. JStr (ascii ''failed'')" 6]
  show ?thesis
    by (simp add: example_draft_userMessage m aiMessage_def)
qed

text \<open>
  C6, as stated, does not hold. With no key the gateway fails, but the error it
  throws to its caller is not the one of the check: \<open>Error('API key is missing')\<close> is
  thrown inside the \<open>try\<close>, and the \<open>catch\<close> block throws the error with the generic
  text in its place, the same error as for a request that got no response.
\<close>

theorem callGroqAPI_generic_failure_counterexample:
  "key_missing None \<and>
   fst (callGroqAPI None (\<lambda>_. Fulfilled example_reply) (messages example_draft) initial) =
     Inl (JsError fallback) \<and>
   JsError fallback \<noteq> JsError (JStr (ascii ''API key is missing'')) \<and>
   fst (callGroqAPI None (\<lambda>_. Fulfilled example_reply) (messages example_draft) initial) =
     fst (callGroqAPI (Some (ascii ''key'')) (\<lambda>_. Rejected None) (messages example_draft) initial)"
proof -
  have n: "key_missing None" by (simp add: key_missing_def)
  have k: "ascii ''key'' \<noteq> []" by (simp add: ascii_Nil)
  have d: "JsError fallback \<noteq> JsError (JStr (ascii ''API key is missing''))"
    by (simp add: fallback_def ascii_def)
  have r: "fst (callGroqAPI (Some (ascii ''key'')) (\<lambda>_. Rejected None) (messages example_draft)
                  initial) = Inl (JsError fallback)"
    using k
    by (simp add: callGroqAPI_def callGroqAPI_begin_key callGroqAPI_resume_def
        callGroqAPI_catch_plain)
  from n d r show ?thesis by (simp add: callGroqAPI_no_key)
qed

text \<open>
  C6, amended. When no key is configured (the variable is undefined or empty), the
  check at the head of the gateway throws \<open>Error('API key is missing')\<close> and the
  gateway fails without a call of \<open>axios.post\<close>: whatever the network would answer,
  the only effects are two lines on the console, and the trace holds no request that
  was not there before. The error the caller receives carries the generic text.
\<close>

theorem callGroqAPI_missing_credential:
  assumes "key_missing apiKey"
  shows "fst (callGroqAPI_try apiKey h w) = Inl (JsError (JStr (ascii ''API key is missing''))) \<and>
     callGroqAPI apiKey post h w =
       (Inl (JsError fallback),
        w\<lparr>trace := trace w @
           [ConsoleError ''API key is missing. Please check your .env file.'',
            ConsoleError ''Error calling Groq API:'']\<rparr>) \<and>
     (\<forall>req. AxiosPost req \<in> set (trace (snd (callGroqAPI apiKey post h w))) \<longrightarrow>
            AxiosPost req \<in> set (trace w))"
  using assms by (auto simp add: callGroqAPI_no_key callGroqAPI_try_def)

theorem callGroqAPI_missing_credential_witness:
  "key_missing None \<and> key_missing (Some []) \<and>
   fst (callGroqAPI None (\<lambda>_. Fulfilled example_reply) (messages example_draft) initial)
     = Inl (JsError fallback) \<and>
   trace (snd (callGroqAPI None (\<lambda>_. Fulfilled example_reply) (messages example_draft) initial)) =
     [ConsoleError ''API key is missing. Please check your .env file.'',
      ConsoleError ''Error calling Groq API:''] \<and>
   fst (callGroqAPI (Some []) (\<lambda>_. Fulfilled example_reply) (messages example_draft) initial)
     = Inl (JsError fallback)"
proof -
  have n: "key_missing None" and e: "key_missing (Some [])"
    by (simp_all add: key_missing_def)
  from n e
    callGroqAPI_missing_credential [of None "messages example_draft" initial
      "\<lambda>_. Fulfilled example_reply"]
    callGroqAPI_missing_credential [of "Some []" "messages example_draft" initial
      "\<lambda>_. Fulfilled example_reply"]
  show ?thesis by (simp add: initial_def)
qed

text \<open>
  C8, as stated, does not hold. The response \<open>{"choices": [{"message": {}}]}\<close>
  does not contain \<open>choices[0].message.content\<close>, yet the gateway does not fail on
  it: it returns \<open>undefined\<close>. And where it does fail on a response of the wrong
  shape, as on \<open>{}\<close>, the error is the one it throws for a network failure.
\<close>

theorem callGroqAPI_no_content_counterexample:
  "\<not> spec_contains_content example_no_content \<and>
   callGroqAPI_resume (Fulfilled example_no_content) initial = (Inr JUndefined, initial) \<and>
   \<not> spec_contains_content (JObj []) \<and>
   callGroqAPI_resume (Fulfilled (JObj [])) initial = callGroqAPI_resume (Rejected None) initial"
  by (simp add: spec_contains_content_def example_no_content_def callGroqAPI_resume_def
      response_content_def access_defs callGroqAPI_catch_def upstream_message_def truthy_def
      ascii_def)

text \<open>
  C8, amended. On a 2xx response the gateway reads \<open>choices[0].message.content\<close>
  from the body without checking its shape. If the body, its \<open>choices\<close>, the first
  choice or its \<open>message\<close> is \<open>undefined\<close> or \<open>null\<close>, the gateway fails, with the
  generic error it also throws for a network failure. In every other case it returns
  what the last step reads, which is \<open>undefined\<close> when only the content is absent.
  A response that contains the content as a string yields that string.
\<close>

theorem callGroqAPI_reads_content:
  "callGroqAPI_resume (Fulfilled data) w =
     (if nullish data \<or> nullish (member data (ascii ''choices'')) \<or>
         nullish (member0 (member data (ascii ''choices''))) \<or>
         nullish (member (member0 (member data (ascii ''choices''))) (ascii ''message''))
      then (Inl (JsError fallback), emit (ConsoleError ''Error calling Groq API:'') w)
      else (Inr (member (member (member0 (member data (ascii ''choices''))) (ascii ''message''))
                   (ascii ''content'')), w)) \<and>
   (spec_contains_content data \<longrightarrow>
      (\<exists>s. callGroqAPI_resume (Fulfilled data) w = (Inr (JStr s), w)))"
proof -
  have "spec_contains_content data \<longrightarrow>
      (\<exists>s. callGroqAPI_resume (Fulfilled data) w = (Inr (JStr s), w))"
    using spec_contains_content_read [of data] by (auto simp add: callGroqAPI_resume_def)
  then show ?thesis
    by (simp add: callGroqAPI_resume_def response_content_eq callGroqAPI_catch_plain)
qed

theorem callGroqAPI_reads_content_witness:
  "spec_contains_content example_reply \<and>
   callGroqAPI_resume (Fulfilled example_reply) initial = (Inr (JStr (ascii ''Hello!'')), initial)"
proof -
  have c: "spec_contains_content example_reply"
    by (simp add: spec_contains_content_def example_reply_def ascii_def)
  from c callGroqAPI_reads_content [of example_reply initial]
  show ?thesis
    by (simp add: example_reply_def access_defs ascii_def)
qed

text \<open>
  C9. Let a submission pass the guard with a key configured, and let "new chat" be
  pressed while the request is out. The request has been posted and stays so: "new
  chat" calls the two setters and nothing else. When the request settles, the second
  half of \<open>handleSubmit\<close> still runs and appends its assistant turn, the reply or the
  error text, to the transcript that was emptied in between. The transcript is then
  that one assistant turn, with no user turn before it.
\<close>

theorem newChat_during_call:
  assumes "trim (input w) \<noteq> []" and "\<not> isLoading w" and "k \<noteq> []"
  shows "messages (handleSubmit_during newChat t (Some k) post now now' w) =
       [case post (chat_request k (messages w @ [userMessage now (input w)])) of
          Rejected r \<Rightarrow> errorMessage t now'
        | Fulfilled data \<Rightarrow>
            (case response_content data of
               Inl e \<Rightarrow> errorMessage t now'
             | Inr v \<Rightarrow> aiMessage now' v)] \<and>
     role (errorMessage t now') = Assistant \<and> role (aiMessage now' v) = Assistant \<and>
     isLoading (handleSubmit_during newChat t (Some k) post now now' w) = False \<and>
     AxiosPost (chat_request k (messages w @ [userMessage now (input w)]))
       \<in> set (trace (handleSubmit_during newChat t (Some k) post now now' w))"
proof -
  let ?h = "messages w @ [userMessage now (input w)]"
  define w1 where "w1 = snd (handleSubmit_begin now w)"
  define w2 where "w2 = w1\<lparr>trace := trace w1 @
         [ConsoleLog ''Using API key (first few chars):'', AxiosPost (chat_request k ?h)]\<rparr>"
  have b: "handleSubmit_begin now w = (Some ?h, w1)"
    unfolding w1_def using assms by (simp add: handleSubmit_begin_guarded)
  have g: "callGroqAPI_begin (Some k) ?h w1 = (Inr (chat_request k ?h), w2)"
    unfolding w2_def using assms by (simp add: callGroqAPI_begin_key)
  obtain result w3 where r: "callGroqAPI_resume (post (chat_request k ?h)) (newChat w2) = (result, w3)"
    by (cases "callGroqAPI_resume (post (chat_request k ?h)) (newChat w2)")
  have run: "handleSubmit_during newChat t (Some k) post now now' w = handleSubmit_end t now' result w3"
    using b g r by (simp add: handleSubmit_during_def)
  have m3: "messages w3 = []"
    using callGroqAPI_resume_state [of "post (chat_request k ?h)" "newChat w2"] r
    by (simp add: newChat_def setter_defs)
  have res: "result = (case post (chat_request k ?h) of
          Rejected r \<Rightarrow> Inl (fst (callGroqAPI_catch (AxiosError r) (newChat w2)))
        | Fulfilled data \<Rightarrow>
            (case response_content data of
               Inl e \<Rightarrow> Inl (fst (callGroqAPI_catch e (newChat w2)))
             | Inr v \<Rightarrow> Inr v))"
    using r by (auto simp add: callGroqAPI_resume_def split: axios_outcome.splits sum.splits prod.splits)
  have tr: "AxiosPost (chat_request k ?h) \<in> set (trace w3)"
  proof -
    from callGroqAPI_resume_trace [of "post (chat_request k ?h)" "newChat w2"] r
    obtain es where "trace w3 = trace (newChat w2) @ es" by auto
    then show ?thesis by (simp add: newChat_def setter_defs w2_def)
  qed
  have tr': "AxiosPost (chat_request k ?h) \<in> set (trace (handleSubmit_end t now' result w3))"
    using tr by (simp add: handleSubmit_end_def setter_defs split: sum.split)
  show ?thesis
    using run m3 res tr'
    by (simp add: handleSubmit_end_messages handleSubmit_end_isLoading errorMessage_def
        aiMessage_def split: axios_outcome.split sum.split)
qed

theorem newChat_during_call_witness:
  "trim (input example_draft) \<noteq> [] \<and> \<not> isLoading example_draft \<and> ascii ''key'' \<noteq> [] \<and>
   messages (handleSubmit_during newChat (\<lambda>_. JStr (ascii ''failed'')) (Some (ascii ''key''))
               (\<lambda>_. Fulfilled example_reply) 5 6 example_draft) =
     [\<lparr>id' = 7, content = JStr (ascii ''Hello!''), role = Assistant\<rparr>] \<and>
   messages (handleSubmit_during newChat (\<lambda>_. JStr (ascii ''failed'')) (Some (ascii ''key''))
               (\<lambda>_. Rejected None) 5 6 example_draft) =
     [\<lparr>id' = 7, content = JStr (ascii ''failed''), role = Assistant\<rparr>]"
proof -
  have k: "ascii ''key'' \<noteq> []" by (simp add: ascii_Nil)
  from example_draft_guard k example_reply_content
    newChat_during_call [of example_draft "ascii ''key''" "\<lambda>_. JStr (ascii ''failed'')"
      "\<lambda>_. Fulfilled example_reply" 5 6]
    newChat_during_call [of example_draft "ascii ''key''" "\<lambda>_. JStr (ascii ''failed'')"
      "\<lambda>_. Rejected None" 5 6]
  show ?thesis
    by (simp add: aiMessage_def errorMessage_def)
qed

text \<open>
  C10. When a key is configured, the effect run on mount posts one request to the same
  endpoint, whose messages are the single user message \<open>"Hello"\<close> and whose
  \<open>max_tokens\<close> is 10. Neither sending it nor its settlement, fulfilled or rejected,
  changes the transcript, the draft or the loading flag: the only further effect is
  one line on the console.
\<close>

theorem onMount_probe:
  assumes "k \<noteq> []"
  shows "onMount (Some k) w =
       (Some (test_request k),
        w\<lparr>trace := trace w @
           [ConsoleLog ''API key found (first few chars):'', AxiosPost (test_request k)]\<rparr>) \<and>
     url (test_request k) = endpoint \<and>
     req_messages (test_request k) = [(User, JStr (ascii ''Hello''))] \<and>
     max_tokens (test_request k) = 10 \<and>
     testApiKey_resume outcome w' =
       w'\<lparr>trace := trace w' @
          [case outcome of
             Fulfilled data \<Rightarrow> ConsoleLog ''API connection successful!''
           | Rejected r \<Rightarrow> ConsoleError ''API test failed:'']\<rparr> \<and>
     messages (snd (onMount (Some k) w)) = messages w \<and>
     input (snd (onMount (Some k) w)) = input w \<and>
     isLoading (snd (onMount (Some k) w)) = isLoading w \<and>
     messages (testApiKey_resume outcome w') = messages w' \<and>
     input (testApiKey_resume outcome w') = input w' \<and>
     isLoading (testApiKey_resume outcome w') = isLoading w'"
  using assms
  by (simp add: onMount_def key_missing_def testApiKey_begin_def testApiKey_resume_def
      test_request_def setter_defs Let_def split: axios_outcome.split)

theorem onMount_probe_witness:
  "ascii ''key'' \<noteq> [] \<and>
   fst (onMount (Some (ascii ''key'')) initial) = Some (test_request (ascii ''key'')) \<and>
   trace (snd (onMount (Some (ascii ''key'')) initial)) =
     [ConsoleLog ''API key found (first few chars):'', AxiosPost (test_request (ascii ''key''))] \<and>
   messages (testApiKey_resume (Rejected None) initial) = [] \<and>
   trace (testApiKey_resume (Rejected None) initial) = [ConsoleError ''API test failed:''] \<and>
   messages (testApiKey_resume (Fulfilled example_reply) initial) = [] \<and>
   trace (testApiKey_resume (Fulfilled example_reply) initial) =
     [ConsoleLog ''API connection successful!'']"
proof -
  have k: "ascii ''key'' \<noteq> []" by (simp add: ascii_Nil)
  have i: "messages initial = [] \<and> trace initial = []" by (simp add: initial_def)
  from k i onMount_probe [of "ascii ''key''" initial "Rejected None" initial]
    onMount_probe [of "ascii ''key''" initial "Fulfilled example_reply" initial]
  show ?thesis by simp
qed

end
